theory Spec2Isabelle
  imports Main "HOL-Library.Sublist"
begin

section \<open>The conversation log and the callback handler\<close>

text \<open>
  The program is a Streamlit script (\<^verbatim>\<open>main.py\<close>). Streamlit runs the script from top to
  bottom on every interaction; \<^verbatim>\<open>st.session_state\<close> survives from one run to the next.
  A log entry is the dictionary \<^verbatim>\<open>{"role": r, "content": c}\<close>.
\<close>

record message =
  role :: string
  content :: string

text \<open>
  What the script can see of Streamlit: \<open>messages\<close> is \<^verbatim>\<open>st.session_state["messages"]\<close>
  (\<open>None\<close> while the key is absent), \<open>written\<close> is the sequence of
  \<^verbatim>\<open>st.chat_message(role).write(content)\<close> calls of the current run.
\<close>

record session =
  messages :: "message list option"
  written :: "message list"

datatype error =
    KeyError string
  | AttributeError string
  | OpenAIError

definition chat_message_write :: "string \<Rightarrow> string \<Rightarrow> session \<Rightarrow> session" where
  "chat_message_write r c s = s\<lparr>written := written s @ [\<lparr>role = r, content = c\<rparr>]\<rparr>"

text \<open>
  \<^verbatim>\<open>class CustomHandler(BaseCallbackHandler)\<close>: the only attribute is \<open>agent_name\<close>.
  In each hook Python evaluates \<^verbatim>\<open>st.session_state.messages\<close> first (AttributeError when
  the key is absent), then the dictionary with \<^verbatim>\<open>outputs['input']\<close> (KeyError when the
  key is missing), then appends, then writes to the chat window.
\<close>

datatype CustomHandler = CustomHandler (agent_name: string)

definition on_chain_start ::
  "CustomHandler \<Rightarrow> (string \<rightharpoonup> string) \<Rightarrow> (string \<rightharpoonup> string) \<Rightarrow> session \<Rightarrow> error + session" where
  "on_chain_start self serialized outputs s =
     (case messages s of
        None \<Rightarrow> Inl (AttributeError ''messages'')
      | Some log \<Rightarrow>
          (case outputs ''input'' of
             None \<Rightarrow> Inl (KeyError ''input'')
           | Some v \<Rightarrow>
               Inr (chat_message_write ''assistant'' v
                      (s\<lparr>messages := Some (log @ [\<lparr>role = ''assistant'', content = v\<rparr>])\<rparr>))))"

definition on_agent_action ::
  "CustomHandler \<Rightarrow> (string \<rightharpoonup> string) \<Rightarrow> (string \<rightharpoonup> string) \<Rightarrow> session \<Rightarrow> error + session" where
  "on_agent_action self serialized inputs s =
     (case messages s of
        None \<Rightarrow> Inl (AttributeError ''messages'')
      | Some log \<Rightarrow>
          (case inputs ''input'' of
             None \<Rightarrow> Inl (KeyError ''input'')
           | Some v \<Rightarrow>
               Inr (chat_message_write ''assistant'' v
                      (s\<lparr>messages := Some (log @ [\<lparr>role = ''assistant'', content = v\<rparr>])\<rparr>))))"

definition on_chain_end ::
  "CustomHandler \<Rightarrow> (string \<rightharpoonup> string) \<Rightarrow> session \<Rightarrow> error + session" where
  "on_chain_end self outputs s =
     (case messages s of
        None \<Rightarrow> Inl (AttributeError ''messages'')
      | Some log \<Rightarrow>
          (case outputs ''output'' of
             None \<Rightarrow> Inl (KeyError ''output'')
           | Some v \<Rightarrow>
               Inr (chat_message_write (agent_name self) v
                      (s\<lparr>messages := Some (log @ [\<lparr>role = agent_name self, content = v\<rparr>])\<rparr>))))"

text \<open>
  The hooks are called by the agent framework, not by the script. One call is a value of
  \<open>hook\<close>; a run of the crew delivers a sequence of them. A hook that raises has not
  touched the session yet, and the exception ends the sequence: the result is then the
  error with the session as the calls before it left it.
\<close>

datatype hook =
    Chain_start CustomHandler "string \<rightharpoonup> string" "string \<rightharpoonup> string"
  | Agent_action CustomHandler "string \<rightharpoonup> string" "string \<rightharpoonup> string"
  | Chain_end CustomHandler "string \<rightharpoonup> string"

fun call_hook :: "hook \<Rightarrow> session \<Rightarrow> error + session" where
  "call_hook (Chain_start h serialized outputs) s = on_chain_start h serialized outputs s"
| "call_hook (Agent_action h serialized inputs) s = on_agent_action h serialized inputs s"
| "call_hook (Chain_end h outputs) s = on_chain_end h outputs s"

fun call_hooks :: "hook list \<Rightarrow> session \<Rightarrow> (error \<times> session) + session" where
  "call_hooks [] s = Inr s"
| "call_hooks (k # ks) s =
     (case call_hook k s of Inl e \<Rightarrow> Inl (e, s) | Inr s' \<Rightarrow> call_hooks ks s')"

section \<open>Agents, tasks and the crew\<close>

text \<open>
  Of an \<^verbatim>\<open>Agent\<close> the model keeps the role and the callback handlers; goal, backstory and
  tools are configuration for the language model. A \<^verbatim>\<open>Task\<close> keeps its three arguments.
\<close>

record agent =
  agent_role :: string
  callbacks :: "CustomHandler list"

definition information_retrieval_agent :: agent where
  "information_retrieval_agent =
     \<lparr>agent_role = ''Medishield Information Provider'',
      callbacks = [CustomHandler ''Medishield Information Provider'']\<rparr>"

definition researcher :: agent where
  "researcher =
     \<lparr>agent_role = ''Medisave Researcher'',
      callbacks = [CustomHandler ''Medisave Researcher'']\<rparr>"

definition customer_service_agent :: agent where
  "customer_service_agent =
     \<lparr>agent_role = ''Customer Service Officer'',
      callbacks = [CustomHandler ''Customer Service Officer'']\<rparr>"

record task =
  description :: string
  agent :: agent
  expected_output :: string

text \<open>
  The research task interpolates the tuple \<^verbatim>\<open>cpf_medisave_urls\<close>; Python renders a tuple of
  strings as the quoted items separated by a comma and a space, in parentheses (the URLs
  contain no quote, backslash or non-printable character, so each is rendered in single
  quotes as it is).
\<close>

definition cpf_medisave_urls :: "string list" where
  "cpf_medisave_urls =
     [''https://www.cpf.gov.sg/member/healthcare-financing/using-your-medisave-savings'',
      ''https://www.cpf.gov.sg/member/healthcare-financing/using-your-medisave-savings/using-medisave-for-outpatient-treatments'',
      ''https://www.cpf.gov.sg/member/healthcare-financing/using-your-medisave-savings/using-medisave-for-hospitalisation'',
      ''https://www.cpf.gov.sg/member/healthcare-financing/using-your-medisave-savings/applying-to-use-your-healthcare-plans'']"

fun join :: "string \<Rightarrow> string list \<Rightarrow> string" where
  "join sep [] = []"
| "join sep [x] = x"
| "join sep (x # y # ys) = x @ sep @ join sep (y # ys)"

definition str_tuple :: "string list \<Rightarrow> string" where
  "str_tuple xs =
     (case xs of
        [] \<Rightarrow> ''()''
      | [x] \<Rightarrow> ''('' @ [CHR 0x27] @ x @ [CHR 0x27] @ '',)''
      | _ \<Rightarrow> ''('' @ join '', '' (map (\<lambda>x. [CHR 0x27] @ x @ [CHR 0x27]) xs) @ '')'')"

text \<open>
  The three tasks are built inside \<^verbatim>\<open>if prompt := st.chat_input():\<close>, from the prompt.
  \<open>pdf_search_tool\<close> stands for the text Python renders for the PDF tool object.
\<close>

definition task_medishield_information_provider :: "string \<Rightarrow> string \<Rightarrow> task" where
  "task_medishield_information_provider pdf_search_tool prompt =
    \<lparr>description =
     ''\<newline>'' @
     ''                    Your instructions are as follows:\<newline>'' @
     ''                    Step 1: Check does '' @ [CHR 0x27] @ prompt @ [CHR 0x27] @ '' contain keywords: Medishield, benefit, coverage, premium, payment, policy, subsidies,\<newline>'' @
     ''                    deductible, claim, co-insurance, exclusions, insurance, healthcare, protection, hospital, ward, \<newline>'' @
     ''                    outpatient, surgery, treatment,  pro-ration, withdrawal, limit.\<newline>'' @
     ''                    Step 2: If '' @ [CHR 0x27] @ prompt @ [CHR 0x27] @ '' NO keywords, PASS THE TASK TO NEXT AGENT AND END YOUR TASK IMMEDIATELY. \<newline>'' @
     ''                    Step 3: If '' @ [CHR 0x27] @ prompt @ [CHR 0x27] @ '' have keywords, GO to PDF document in ('' @ pdf_search_tool @ '').\<newline>'' @
     ''                    Step 4: Use the tools to extract every piece of relevant information from the PDF ONLY which are related to '' @ [CHR 0x27] @ prompt @ [CHR 0x27] @ ''.\<newline>'' @
     ''                    Step 5: Present the extracted information in a clear, structured format, such as lists or tables, to enhance readability.\<newline>'' @
     ''                    '',
     agent = information_retrieval_agent,
     expected_output = ''Present relevant information in a clear, structured format, such as lists or tables for the customer service agent to complete the task.''\<rparr>"

definition task_medisave_researcher :: "string \<Rightarrow> task" where
  "task_medisave_researcher prompt =
    \<lparr>description =
     ''\<newline>'' @
     ''                    Your instructions are as follows:\<newline>'' @
     ''                    Step 1: Analyze all CPF medisave URLs provided in ('' @ str_tuple cpf_medisave_urls @ '') to extract relevant information related to '' @ [CHR 0x27] @ prompt @ [CHR 0x27] @ ''.\<newline>'' @
     ''                    Step 2: Use the tools to gather relevant information from CPF medisave urls provided in ('' @ str_tuple cpf_medisave_urls @ '') ONLY.\<newline>'' @
     ''                    Step 3: If you are not able to find anything on all CPF medisave URLs provided in ('' @ str_tuple cpf_medisave_urls @ ''), END YOUR TASK IMMEDIATELY.\<newline>'' @
     ''                    '',
     agent = researcher,
     expected_output = ''A structured list of relevant information for the customer service agent to complete the task.''\<rparr>"

definition task_customer_service_agent :: task where
  "task_customer_service_agent =
    \<lparr>description =
     ''\<newline>'' @
     ''                    Your instructions are as follows:\<newline>'' @
     ''                    Use ONLY the FINAL answer given by the information retrieval agent or researcher agent.\<newline>'' @
     ''                    DO NOT ADD any additional information.\<newline>'' @
     ''                    DO NOT MAKE UP any information. If you DO NOT have the information or answers, response: 'I'm sorry. I do not have the answer to this enquiry.' \<newline>'' @
     ''                    Write a detailed response to the customer with the following:\<newline>'' @
     ''                    1. Fellow Citizen, thank you for your enquiry.\<newline>'' @
     ''                    2. Detailed response with the FINAL answer in a clear and concise format.\<newline>'' @
     ''                    3. If you DO NOT have the information or answers, just say: 'I'm sorry. I do not have the answer to this enquiry.\<newline>'' @
     ''                    4. Lastly, provide customer a healthcare tip at the end of the conversation.\<newline>'' @
     ''                    '',
     agent = customer_service_agent,
     expected_output = ''Write a detailed response to the customer in a clear and concise format with the FINAL answer given by the information retrieval agent or researcher agent ONLY.''\<rparr>"

datatype process = sequential | hierarchical

record crew =
  tasks :: "task list"
  agents :: "agent list"
  process :: process
  manager_callbacks :: "CustomHandler list"

definition project_crew :: "string \<Rightarrow> string \<Rightarrow> crew" where
  "project_crew pdf_search_tool prompt =
     \<lparr>tasks = [task_medishield_information_provider pdf_search_tool prompt,
               task_medisave_researcher prompt,
               task_customer_service_agent],
      agents = [information_retrieval_agent, researcher, customer_service_agent],
      process = hierarchical,
      manager_callbacks = [CustomHandler ''Crew Manager'']\<rparr>"

section \<open>Running the crew\<close>

text \<open>
  \<^verbatim>\<open>project_crew.kickoff()\<close> is a call into the crew framework. The script fixes the list of
  tasks and \<^verbatim>\<open>Process.hierarchical\<close>; everything else is decided by the language model that
  the framework consults. The model keeps those decisions as parameters: for each task,
  given the outputs of the tasks before it, \<open>delegates\<close> says whether the manager hands
  the task to the agent the task names, \<open>coworker\<close> is what that agent answers, and
  \<open>manager\<close> is the text the manager returns for the task (from the agent's answer when
  there is one). Under \<^verbatim>\<open>Process.sequential\<close> there is no manager and every task goes to
  its agent. The tasks are run in list order and the output of the last one is the output
  of the crew.
\<close>

record llm =
  delegates :: "task \<Rightarrow> string list \<Rightarrow> bool"
  coworker :: "task \<Rightarrow> string list \<Rightarrow> string"
  manager :: "task \<Rightarrow> string list \<Rightarrow> string option \<Rightarrow> string"

record crew_run =
  invoked :: "string list"
  task_outputs :: "string list"

fun execute_tasks :: "llm \<Rightarrow> process \<Rightarrow> task list \<Rightarrow> crew_run \<Rightarrow> crew_run" where
  "execute_tasks m p [] r = r"
| "execute_tasks m sequential (t # ts) r =
     execute_tasks m sequential ts
       \<lparr>invoked = invoked r @ [agent_role (agent t)],
        task_outputs = task_outputs r @ [coworker m t (task_outputs r)]\<rparr>"
| "execute_tasks m hierarchical (t # ts) r =
     (if delegates m t (task_outputs r)
      then execute_tasks m hierarchical ts
             \<lparr>invoked = invoked r @ [agent_role (agent t)],
              task_outputs = task_outputs r @ [manager m t (task_outputs r) (Some (coworker m t (task_outputs r)))]\<rparr>
      else execute_tasks m hierarchical ts
             \<lparr>invoked = invoked r,
              task_outputs = task_outputs r @ [manager m t (task_outputs r) None]\<rparr>)"

definition kickoff :: "llm \<Rightarrow> crew \<Rightarrow> crew_run" where
  "kickoff m c = execute_tasks m (process c) (tasks c) \<lparr>invoked = [], task_outputs = []\<rparr>"

definition final :: "crew_run \<Rightarrow> string" where
  "final r = (case rev (task_outputs r) of [] \<Rightarrow> [] | x # _ \<Rightarrow> x)"

section \<open>The script\<close>

text \<open>
  Everything the script reads from outside is a field of \<open>world\<close>:
  \<open>load_dotenv\<close> is the value of \<^verbatim>\<open>load_dotenv('.env')\<close>, \<open>getenv\<close> of
  \<^verbatim>\<open>os.getenv('OPENAI_API_KEY')\<close> (\<open>None\<close> when the variable is unset), \<open>secrets\<close> of
  \<^verbatim>\<open>st.secrets['OPENAI_API_KEY']\<close> (\<open>None\<close> when the key is missing, where the subscript
  raises), \<open>OpenAI\<close> tells for which \<^verbatim>\<open>api_key\<close> argument the client constructor returns
  a client rather than raising, \<open>check_password\<close> is the value of the helper of that name
  (imported, not part of \<^verbatim>\<open>main.py\<close>), \<open>chat_input\<close> of \<^verbatim>\<open>st.chat_input()\<close>,
  \<open>pdf_search_tool\<close> the text of the PDF tool object, \<open>openai\<close> the language model and
  \<open>fired\<close> the hook calls the framework makes while the crew runs. The constructors of
  the chat model, the tools and the agents (lines 29 to 107) read none of these and are
  taken to return; so is \<^verbatim>\<open>kickoff\<close>, whose only modelled failure is an exception raised
  in a hook. The script has no \<^verbatim>\<open>try\<close>: an exception ends the run.
\<close>

record world =
  load_dotenv :: bool
  getenv :: "string option"
  secrets :: "string option"
  OpenAI :: "string option \<Rightarrow> bool"
  check_password :: bool
  chat_input :: "string option"
  pdf_search_tool :: string
  openai :: llm
  fired :: "hook list"

text \<open>Lines 19 to 26: the key, then the client.\<close>

definition OPENAI_KEY :: "world \<Rightarrow> error + string option" where
  "OPENAI_KEY w =
     (if load_dotenv w then Inr (getenv w)
      else (case secrets w of
              None \<Rightarrow> Inl (KeyError ''OPENAI_API_KEY'')
            | Some k \<Rightarrow> Inr (Some k)))"

definition client :: "world \<Rightarrow> error + string option" where
  "client w =
     (case OPENAI_KEY w of
        Inl e \<Rightarrow> Inl e
      | Inr key \<Rightarrow> if OpenAI w key then Inr key else Inl OpenAIError)"

text \<open>Line 193: the text shown at the end of a turn.\<close>

definition result :: "string \<Rightarrow> string" where
  "result final_output =
     ''## Thanks for waiting. Here is the information you requested. \<newline>\<newline> '' @ final_output"

text \<open>\<^verbatim>\<open>st.session_state.messages.append(m)\<close>, as the script itself does it.\<close>

definition messages_append :: "message \<Rightarrow> session \<Rightarrow> error + session" where
  "messages_append m s =
     (case messages s of
        None \<Rightarrow> Inl (AttributeError ''messages'')
      | Some log \<Rightarrow> Inr (s\<lparr>messages := Some (log @ [m])\<rparr>))"

text \<open>
  Lines 136 to 195, the body of \<^verbatim>\<open>if prompt := st.chat_input():\<close>. It is cut in three at
  the call of \<^verbatim>\<open>kickoff\<close>: what happens before it, the hook calls made during it, and what
  happens after it.
\<close>

definition begin_turn :: "string \<Rightarrow> session \<Rightarrow> error + session" where
  "begin_turn prompt s =
     (case messages_append \<lparr>role = ''user'', content = prompt\<rparr> s of
        Inl e \<Rightarrow> Inl e
      | Inr s' \<Rightarrow> Inr (chat_message_write ''user'' prompt s'))"

definition end_turn :: "string \<Rightarrow> session \<Rightarrow> error + session" where
  "end_turn final_output s =
     (case messages_append \<lparr>role = ''assistant'', content = result final_output\<rparr> s of
        Inl e \<Rightarrow> Inl e
      | Inr s' \<Rightarrow> Inr (chat_message_write ''assistant'' (result final_output) s'))"

definition handle_prompt :: "world \<Rightarrow> string \<Rightarrow> session \<Rightarrow> (error \<times> session) + session" where
  "handle_prompt w prompt s =
     (case begin_turn prompt s of
        Inl e \<Rightarrow> Inl (e, s)
      | Inr s1 \<Rightarrow>
          (case call_hooks (fired w) s1 of
             Inl es \<Rightarrow> Inl es
           | Inr s2 \<Rightarrow>
               (case end_turn (final (kickoff (openai w) (project_crew (pdf_search_tool w) prompt))) s2 of
                  Inl e \<Rightarrow> Inl (e, s2)
                | Inr s3 \<Rightarrow> Inr s3)))"

text \<open>
  One run of the script. \<open>Aborted\<close> is an uncaught exception, \<open>Stopped\<close> is
  \<^verbatim>\<open>st.stop()\<close>, \<open>Completed\<close> is the end of the file; each carries the session as the
  run leaves it, and the second argument of \<open>Completed\<close> is the prompt given to the crew
  in this run, if there was one. The title,
  the page configuration and the disclaimer leave the log alone and are not modelled.
  An empty string is false in \<^verbatim>\<open>if prompt := st.chat_input():\<close>.
\<close>

datatype outcome =
    Aborted error session
  | Stopped session
  | Completed session "string option"

definition initial_message :: message where
  "initial_message =
     \<lparr>role = ''assistant'',
      content = ''How can I help you navigate your healthcare planning today? Your well-being is our priority!''\<rparr>"

definition init_messages :: "session \<Rightarrow> session" where
  "init_messages s =
     (case messages s of
        None \<Rightarrow> s\<lparr>messages := Some [initial_message]\<rparr>
      | Some log \<Rightarrow> s)"

definition display_messages :: "session \<Rightarrow> error + session" where
  "display_messages s =
     (case messages s of
        None \<Rightarrow> Inl (AttributeError ''messages'')
      | Some log \<Rightarrow> Inr (foldl (\<lambda>s' msg. chat_message_write (role msg) (content msg) s') s log))"

definition main :: "world \<Rightarrow> session \<Rightarrow> outcome" where
  "main w s =
     (case client w of
        Inl e \<Rightarrow> Aborted e s
      | Inr key \<Rightarrow>
          if \<not> check_password w then Stopped s
          else
            (case display_messages (init_messages s) of
               Inl e \<Rightarrow> Aborted e (init_messages s)
             | Inr s1 \<Rightarrow>
                 (case chat_input w of
                    None \<Rightarrow> Completed s1 None
                  | Some prompt \<Rightarrow>
                      if prompt = [] then Completed s1 None
                      else
                        (case handle_prompt w prompt s1 of
                           Inl (e, s2) \<Rightarrow> Aborted e s2
                         | Inr s2 \<Rightarrow> Completed s2 (Some prompt)))))"


section \<open>What each operation does to the log\<close>

lemma call_hook_appends:
  assumes "call_hook k s = Inr s'"
  shows "\<exists>log m. messages s = Some log \<and> messages s' = Some (log @ [m])"
  using assms
  by (cases k)
     (auto simp: on_chain_start_def on_agent_action_def on_chain_end_def chat_message_write_def
           split: option.splits)

lemma call_hooks_appends:
  assumes "call_hooks ks s = Inr s'" and "messages s = Some log"
  shows "\<exists>ms. length ms = length ks \<and> messages s' = Some (log @ ms)"
  using assms
proof (induction ks arbitrary: s log)
  case Nil
  then show ?case by simp
next
  case (Cons k ks)
  from Cons.prems(1) obtain s1 where k: "call_hook k s = Inr s1" and rest: "call_hooks ks s1 = Inr s'"
    by (auto split: sum.splits)
  from call_hook_appends [OF k] Cons.prems(2) obtain m where s1: "messages s1 = Some (log @ [m])"
    by auto
  from Cons.IH [OF rest s1] obtain ms where "length ms = length ks" "messages s' = Some ((log @ [m]) @ ms)"
    by blast
  then have "length (m # ms) = length (k # ks) \<and> messages s' = Some (log @ (m # ms))" by simp
  then show ?case by blast
qed



lemma begin_turn_log:
  "begin_turn p s = Inr s' \<Longrightarrow> \<exists>log. messages s = Some log \<and> messages s' = Some (log @ [\<lparr>role = ''user'', content = p\<rparr>])"
  by (auto simp: begin_turn_def messages_append_def chat_message_write_def split: option.splits sum.splits)

lemma end_turn_log:
  "end_turn fo s = Inr s' \<Longrightarrow> \<exists>log. messages s = Some log \<and> messages s' = Some (log @ [\<lparr>role = ''assistant'', content = result fo\<rparr>]) 
     \<and> written s' = written s @ [\<lparr>role = ''assistant'', content = result fo\<rparr>]"
  by (auto simp: end_turn_def messages_append_def chat_message_write_def split: option.splits sum.splits)

lemma handle_prompt_log:
  assumes "handle_prompt w p s = Inr s'"
  shows "\<exists>log ms. messages s = Some log \<and> length ms = length (fired w) \<and>
     messages s' = Some (log @ [\<lparr>role = ''user'', content = p\<rparr>] @ ms @
        [\<lparr>role = ''assistant'', content = result (final (kickoff (openai w) (project_crew (pdf_search_tool w) p)))\<rparr>])
     \<and> (\<exists>ws. written s' = ws @ [\<lparr>role = ''assistant'', content = result (final (kickoff (openai w) (project_crew (pdf_search_tool w) p)))\<rparr>])"
proof -
  let ?fo = "final (kickoff (openai w) (project_crew (pdf_search_tool w) p))"
  from assms obtain s1 s2 where b: "begin_turn p s = Inr s1" and h: "call_hooks (fired w) s1 = Inr s2"
    and e: "end_turn ?fo s2 = Inr s'"
    by (auto simp: handle_prompt_def split: sum.splits)
  from begin_turn_log [OF b] obtain log where l: "messages s = Some log" "messages s1 = Some (log @ [\<lparr>role = ''user'', content = p\<rparr>])" by blast
  from call_hooks_appends [OF h l(2)] obtain ms where m: "length ms = length (fired w)" "messages s2 = Some ((log @ [\<lparr>role = ''user'', content = p\<rparr>]) @ ms)" by blast
  from end_turn_log [OF e] m(2) have "messages s' = Some (((log @ [\<lparr>role = ''user'', content = p\<rparr>]) @ ms) @ [\<lparr>role = ''assistant'', content = result ?fo\<rparr>])"
     and "written s' = written s2 @ [\<lparr>role = ''assistant'', content = result ?fo\<rparr>]" by auto
  with l(1) m(1) show ?thesis by auto
qed

section \<open>The roles under which the handler records events\<close>



section \<open>The message shown at the end of a turn\<close>

lemma main_completed_turn:
  assumes "main w s = Completed s' (Some p)"
  shows "\<exists>s1. display_messages (init_messages s) = Inr s1 \<and> handle_prompt w p s1 = Inr s' \<and> p \<noteq> []
           \<and> check_password w \<and> (\<exists>key. client w = Inr key) \<and> chat_input w = Some p"
  using assms
  by (auto simp: main_def split: sum.splits if_splits option.splits prod.splits)

lemma init_messages_log:
  "messages (init_messages s) = (case messages s of None \<Rightarrow> Some [initial_message] | Some log \<Rightarrow> Some log)"
  by (simp add: init_messages_def split: option.splits)

lemma result_not_output: "result fo \<noteq> fo"
proof
  assume "result fo = fo"
  then have "length (result fo) = length fo" by simp
  then show False by (simp add: result_def)
qed


text \<open>
  Claim C8. In every run of the script that handles a prompt to the end, the last entry of
  the log, and the last message written to the chat window, has the role
  \<open>''assistant''\<close> and the content \<open>result\<close> of the crew's output: the fixed header
  \<^verbatim>\<open>## Thanks for waiting. Here is the information you requested. \n\n\<close>, one more space
  (the one that precedes \<^verbatim>\<open>{final}\<close> in the f-string), then the crew's output. So the
  header is a prefix of that text, the crew's output is a suffix of it, and the text is
  never the crew's output alone.
\<close>

theorem final_message_has_header:
  assumes "main w s = Completed s' (Some prompt)"
  shows "\<exists>log ws.
           messages s' = Some (log @ [\<lparr>role = ''assistant'',
              content = result (final (kickoff (openai w) (project_crew (pdf_search_tool w) prompt)))\<rparr>])
         \<and> written s' = ws @ [\<lparr>role = ''assistant'',
              content = result (final (kickoff (openai w) (project_crew (pdf_search_tool w) prompt)))\<rparr>]
         \<and> result (final (kickoff (openai w) (project_crew (pdf_search_tool w) prompt))) =
             ''## Thanks for waiting. Here is the information you requested. \<newline>\<newline>'' @ '' '' @
               final (kickoff (openai w) (project_crew (pdf_search_tool w) prompt))
         \<and> prefix ''## Thanks for waiting. Here is the information you requested. \<newline>\<newline>''
              (result (final (kickoff (openai w) (project_crew (pdf_search_tool w) prompt))))
         \<and> suffix (final (kickoff (openai w) (project_crew (pdf_search_tool w) prompt)))
              (result (final (kickoff (openai w) (project_crew (pdf_search_tool w) prompt))))
         \<and> result (final (kickoff (openai w) (project_crew (pdf_search_tool w) prompt))) \<noteq>
               final (kickoff (openai w) (project_crew (pdf_search_tool w) prompt))"
proof -
  let ?fo = "final (kickoff (openai w) (project_crew (pdf_search_tool w) prompt))"
  from main_completed_turn [OF assms] obtain s1 where "handle_prompt w prompt s1 = Inr s'" by blast
  from handle_prompt_log [OF this] obtain log ms ws where
    "messages s' = Some (log @ [\<lparr>role = ''user'', content = prompt\<rparr>] @ ms @ [\<lparr>role = ''assistant'', content = result ?fo\<rparr>])"
    "written s' = ws @ [\<lparr>role = ''assistant'', content = result ?fo\<rparr>]"
    by blast
  then have "messages s' = Some ((log @ [\<lparr>role = ''user'', content = prompt\<rparr>] @ ms) @ [\<lparr>role = ''assistant'', content = result ?fo\<rparr>])
      \<and> written s' = ws @ [\<lparr>role = ''assistant'', content = result ?fo\<rparr>]" by simp
  moreover have "result ?fo = ''## Thanks for waiting. Here is the information you requested. \<newline>\<newline>'' @ '' '' @ ?fo"
    by (simp add: result_def)
  moreover have "prefix ''## Thanks for waiting. Here is the information you requested. \<newline>\<newline>'' (result ?fo)"
    by (simp add: result_def)
  moreover have "suffix ?fo (result ?fo)"
    by (simp add: result_def suffix_def)
  moreover have "result ?fo \<noteq> ?fo" by (rule result_not_output)
  ultimately show ?thesis by blast
qed

theorem final_message_has_header_witness:
  "main \<lparr>load_dotenv = False, getenv = None, secrets = Some ''sk-test'',
          OpenAI = (\<lambda>key. key \<noteq> None), check_password = True,
          chat_input = Some ''What is MediSave?'', pdf_search_tool = ''PDFSearchTool'',
          openai = \<lparr>delegates = (\<lambda>t outs. True),
                    coworker = (\<lambda>t outs. ''MediSave is a national medical savings scheme.''),
                    manager = (\<lambda>t outs a. case a of None \<Rightarrow> [] | Some x \<Rightarrow> x)\<rparr>,
          fired = [Chain_end (CustomHandler ''Customer Service Officer'')
                     [''output'' \<mapsto> ''MediSave is a national medical savings scheme.'']]\<rparr>
        \<lparr>messages = Some [initial_message], written = []\<rparr> =
      Completed
        \<lparr>messages = Some [initial_message, \<lparr>role = ''user'', content = ''What is MediSave?''\<rparr>,
           \<lparr>role = ''Customer Service Officer'', content = ''MediSave is a national medical savings scheme.''\<rparr>,
           \<lparr>role = ''assistant'',
            content = ''## Thanks for waiting. Here is the information you requested. \<newline>\<newline> MediSave is a national medical savings scheme.''\<rparr>],
         written = [initial_message, \<lparr>role = ''user'', content = ''What is MediSave?''\<rparr>,
           \<lparr>role = ''Customer Service Officer'', content = ''MediSave is a national medical savings scheme.''\<rparr>,
           \<lparr>role = ''assistant'',
            content = ''## Thanks for waiting. Here is the information you requested. \<newline>\<newline> MediSave is a national medical savings scheme.''\<rparr>]\<rparr>
        (Some ''What is MediSave?'')
   \<and> result ''MediSave is a national medical savings scheme.'' =
       ''## Thanks for waiting. Here is the information you requested. \<newline>\<newline>'' @ '' '' @
       ''MediSave is a national medical savings scheme.''
   \<and> result ''MediSave is a national medical savings scheme.'' \<noteq> ''MediSave is a national medical savings scheme.''"
proof -
  let ?w = "\<lparr>load_dotenv = False, getenv = None, secrets = Some ''sk-test'',
          OpenAI = (\<lambda>key. key \<noteq> None), check_password = True,
          chat_input = Some ''What is MediSave?'', pdf_search_tool = ''PDFSearchTool'',
          openai = \<lparr>delegates = (\<lambda>t outs. True),
                    coworker = (\<lambda>t outs. ''MediSave is a national medical savings scheme.''),
                    manager = (\<lambda>t outs a. case a of None \<Rightarrow> [] | Some x \<Rightarrow> x)\<rparr>,
          fired = [Chain_end (CustomHandler ''Customer Service Officer'')
                     [''output'' \<mapsto> ''MediSave is a national medical savings scheme.'']]\<rparr>"
  let ?s' = "\<lparr>messages = Some [initial_message, \<lparr>role = ''user'', content = ''What is MediSave?''\<rparr>,
           \<lparr>role = ''Customer Service Officer'', content = ''MediSave is a national medical savings scheme.''\<rparr>,
           \<lparr>role = ''assistant'',
            content = ''## Thanks for waiting. Here is the information you requested. \<newline>\<newline> MediSave is a national medical savings scheme.''\<rparr>],
         written = [initial_message, \<lparr>role = ''user'', content = ''What is MediSave?''\<rparr>,
           \<lparr>role = ''Customer Service Officer'', content = ''MediSave is a national medical savings scheme.''\<rparr>,
           \<lparr>role = ''assistant'',
            content = ''## Thanks for waiting. Here is the information you requested. \<newline>\<newline> MediSave is a national medical savings scheme.''\<rparr>]\<rparr>"
  have fo: "final (kickoff (openai ?w) (project_crew (pdf_search_tool ?w) ''What is MediSave?'')) =
      ''MediSave is a national medical savings scheme.''"
    by (simp add: kickoff_def project_crew_def final_def)
  have run: "main ?w \<lparr>messages = Some [initial_message], written = []\<rparr> = Completed ?s' (Some ''What is MediSave?'')"
    by (simp add: main_def client_def OPENAI_KEY_def init_messages_def display_messages_def
      handle_prompt_def begin_turn_def end_turn_def messages_append_def chat_message_write_def
      on_chain_end_def kickoff_def project_crew_def final_def result_def initial_message_def)
  from final_message_has_header [OF run] have
    "result (final (kickoff (openai ?w) (project_crew (pdf_search_tool ?w) ''What is MediSave?''))) =
       ''## Thanks for waiting. Here is the information you requested. \<newline>\<newline>'' @ '' '' @
       final (kickoff (openai ?w) (project_crew (pdf_search_tool ?w) ''What is MediSave?''))
     \<and> result (final (kickoff (openai ?w) (project_crew (pdf_search_tool ?w) ''What is MediSave?''))) \<noteq>
       final (kickoff (openai ?w) (project_crew (pdf_search_tool ?w) ''What is MediSave?''))"
    by blast
  then have "result ''MediSave is a national medical savings scheme.'' =
       ''## Thanks for waiting. Here is the information you requested. \<newline>\<newline>'' @ '' '' @
       ''MediSave is a national medical savings scheme.''
     \<and> result ''MediSave is a national medical savings scheme.'' \<noteq> ''MediSave is a national medical savings scheme.''"
    unfolding fo .
  with run show ?thesis by blast
qed




section \<open>When the log is appended to\<close>








section \<open>The password gate\<close>

text \<open>
  Claim C10. When \<^verbatim>\<open>check_password()\<close> returns false, a run of the script that got past
  the start-up ends in \<^verbatim>\<open>st.stop()\<close> with the session untouched (a run whose start-up
  failed has aborted before the check): it is the same run whatever the chat input, the
  language model and the hooks are, and it never completes a turn.
\<close>

theorem password_gate:
  assumes "\<not> check_password w"
  shows "main w s = (case client w of Inl e \<Rightarrow> Aborted e s | Inr key \<Rightarrow> Stopped s)
       \<and> main (w\<lparr>chat_input := q, openai := m, fired := f\<rparr>) s = main w s
       \<and> (\<forall>s' p. main w s \<noteq> Completed s' p)"
  using assms
  by (simp add: main_def client_def OPENAI_KEY_def split: sum.splits option.splits)

theorem password_gate_witness:
  "\<not> check_password \<lparr>load_dotenv = True, getenv = Some ''sk-test'', secrets = None,
          OpenAI = (\<lambda>key. key \<noteq> None), check_password = False,
          chat_input = Some ''What is MediSave?'', pdf_search_tool = ''PDFSearchTool'',
          openai = \<lparr>delegates = (\<lambda>t outs. True), coworker = (\<lambda>t outs. ''MediSave is a savings scheme.''),
                    manager = (\<lambda>t outs a. ''MediSave is a savings scheme.'')\<rparr>,
          fired = []\<rparr>
   \<and> main \<lparr>load_dotenv = True, getenv = Some ''sk-test'', secrets = None,
          OpenAI = (\<lambda>key. key \<noteq> None), check_password = False,
          chat_input = Some ''What is MediSave?'', pdf_search_tool = ''PDFSearchTool'',
          openai = \<lparr>delegates = (\<lambda>t outs. True), coworker = (\<lambda>t outs. ''MediSave is a savings scheme.''),
                    manager = (\<lambda>t outs a. ''MediSave is a savings scheme.'')\<rparr>,
          fired = []\<rparr>
        \<lparr>messages = None, written = []\<rparr> = Stopped \<lparr>messages = None, written = []\<rparr>"
  using password_gate [of "\<lparr>load_dotenv = True, getenv = Some ''sk-test'', secrets = None,
          OpenAI = (\<lambda>key. key \<noteq> None), check_password = False,
          chat_input = Some ''What is MediSave?'', pdf_search_tool = ''PDFSearchTool'',
          openai = \<lparr>delegates = (\<lambda>t outs. True), coworker = (\<lambda>t outs. ''MediSave is a savings scheme.''),
                    manager = (\<lambda>t outs a. ''MediSave is a savings scheme.'')\<rparr>,
          fired = []\<rparr>" "\<lparr>messages = None, written = []\<rparr>"]
  by (simp add: client_def OPENAI_KEY_def)

section \<open>The credential at start-up\<close>

text \<open>
  Claim C7. Without a credential the run aborts at start-up, before the password check,
  the chat input and the crew. When \<^verbatim>\<open>.env\<close> was not loaded and the secret is missing,
  the lookup \<^verbatim>\<open>st.secrets['OPENAI_API_KEY']\<close> raises. When \<^verbatim>\<open>.env\<close> was loaded and the
  variable is unset, \<^verbatim>\<open>os.getenv\<close> returns \<^verbatim>\<open>None\<close>, the script itself raises nothing and
  passes \<^verbatim>\<open>None\<close> to the client constructor; the run aborts there provided the constructor
  rejects a missing key, which is the behaviour of the client library and is a hypothesis
  here (\<open>\<not> OpenAI w None\<close>). Under that hypothesis an aborted start-up does not
  depend on the chat input, and a run that reaches the end of the script was given a key
  that the constructor accepted.
\<close>

theorem missing_credential_aborts:
  "(\<not> load_dotenv w \<and> secrets w = None \<longrightarrow>
      main w s = Aborted (KeyError ''OPENAI_API_KEY'') s)
   \<and> (load_dotenv w \<and> getenv w = None \<and> \<not> OpenAI w None \<longrightarrow>
      main w s = Aborted OpenAIError s)
   \<and> (\<not> OpenAI w None \<and> (if load_dotenv w then getenv w else secrets w) = None \<longrightarrow>
      (\<exists>e. main w s = Aborted e s) \<and> main (w\<lparr>chat_input := q\<rparr>) s = main w s)
   \<and> (\<not> OpenAI w None \<and> main w s = Completed s' p \<longrightarrow>
      (\<exists>k. (if load_dotenv w then getenv w else secrets w) = Some k \<and> OpenAI w (Some k)))"
proof -
  have a: "\<not> load_dotenv w \<and> secrets w = None \<longrightarrow>
      main w s = Aborted (KeyError ''OPENAI_API_KEY'') s"
    by (simp add: main_def client_def OPENAI_KEY_def)
  have b: "load_dotenv w \<and> getenv w = None \<and> \<not> OpenAI w None \<longrightarrow>
      main w s = Aborted OpenAIError s"
    by (simp add: main_def client_def OPENAI_KEY_def)
  have c: "\<not> OpenAI w None \<and> (if load_dotenv w then getenv w else secrets w) = None \<longrightarrow>
      (\<exists>e. main w s = Aborted e s) \<and> main (w\<lparr>chat_input := q\<rparr>) s = main w s"
    by (simp add: main_def client_def OPENAI_KEY_def)
  have d: "\<not> OpenAI w None \<and> main w s = Completed s' p \<longrightarrow>
      (\<exists>k. (if load_dotenv w then getenv w else secrets w) = Some k \<and> OpenAI w (Some k))"
    by (cases "load_dotenv w"; cases "getenv w"; cases "secrets w")
       (simp_all add: main_def client_def OPENAI_KEY_def split: if_splits)
  from a b c d show ?thesis by blast
qed

theorem missing_credential_aborts_witness:
  "main \<lparr>load_dotenv = False, getenv = None, secrets = None,
      OpenAI = (\<lambda>key. key \<noteq> None), check_password = True, chat_input = Some ''What is MediSave?'',
      pdf_search_tool = ''PDFSearchTool'',
      openai = \<lparr>delegates = (\<lambda>t outs. False), coworker = (\<lambda>t outs. []),
              manager = (\<lambda>t outs a. [])\<rparr>,
      fired = []\<rparr>
     \<lparr>messages = Some [initial_message], written = []\<rparr> = Aborted (KeyError ''OPENAI_API_KEY'') \<lparr>messages = Some [initial_message], written = []\<rparr>
   \<and> main \<lparr>load_dotenv = True, getenv = None, secrets = Some ''sk-test'',
      OpenAI = (\<lambda>key. key \<noteq> None), check_password = True, chat_input = Some ''What is MediSave?'',
      pdf_search_tool = ''PDFSearchTool'',
      openai = \<lparr>delegates = (\<lambda>t outs. False), coworker = (\<lambda>t outs. []),
              manager = (\<lambda>t outs a. [])\<rparr>,
      fired = []\<rparr>
     \<lparr>messages = Some [initial_message], written = []\<rparr> = Aborted OpenAIError \<lparr>messages = Some [initial_message], written = []\<rparr>
   \<and> main (\<lparr>load_dotenv = True, getenv = None, secrets = Some ''sk-test'',
      OpenAI = (\<lambda>key. key \<noteq> None), check_password = True, chat_input = Some ''What is MediSave?'',
      pdf_search_tool = ''PDFSearchTool'',
      openai = \<lparr>delegates = (\<lambda>t outs. False), coworker = (\<lambda>t outs. []),
              manager = (\<lambda>t outs a. [])\<rparr>,
      fired = []\<rparr>\<lparr>chat_input := None\<rparr>)
     \<lparr>messages = Some [initial_message], written = []\<rparr> =
     main \<lparr>load_dotenv = True, getenv = None, secrets = Some ''sk-test'',
      OpenAI = (\<lambda>key. key \<noteq> None), check_password = True, chat_input = Some ''What is MediSave?'',
      pdf_search_tool = ''PDFSearchTool'',
      openai = \<lparr>delegates = (\<lambda>t outs. False), coworker = (\<lambda>t outs. []),
              manager = (\<lambda>t outs a. [])\<rparr>,
      fired = []\<rparr>
     \<lparr>messages = Some [initial_message], written = []\<rparr>
   \<and> main \<lparr>load_dotenv = True, getenv = Some ''sk-test'', secrets = None,
      OpenAI = (\<lambda>key. key \<noteq> None), check_password = True, chat_input = None,
      pdf_search_tool = ''PDFSearchTool'',
      openai = \<lparr>delegates = (\<lambda>t outs. False), coworker = (\<lambda>t outs. []),
              manager = (\<lambda>t outs a. [])\<rparr>,
      fired = []\<rparr>
     \<lparr>messages = Some [initial_message], written = []\<rparr> = Completed \<lparr>messages = Some [initial_message], written = [initial_message]\<rparr> None
   \<and> (\<exists>k. (if load_dotenv \<lparr>load_dotenv = True, getenv = Some ''sk-test'', secrets = None,
      OpenAI = (\<lambda>key. key \<noteq> None), check_password = True, chat_input = None,
      pdf_search_tool = ''PDFSearchTool'',
      openai = \<lparr>delegates = (\<lambda>t outs. False), coworker = (\<lambda>t outs. []),
              manager = (\<lambda>t outs a. [])\<rparr>,
      fired = []\<rparr>
             then getenv \<lparr>load_dotenv = True, getenv = Some ''sk-test'', secrets = None,
      OpenAI = (\<lambda>key. key \<noteq> None), check_password = True, chat_input = None,
      pdf_search_tool = ''PDFSearchTool'',
      openai = \<lparr>delegates = (\<lambda>t outs. False), coworker = (\<lambda>t outs. []),
              manager = (\<lambda>t outs a. [])\<rparr>,
      fired = []\<rparr>
             else secrets \<lparr>load_dotenv = True, getenv = Some ''sk-test'', secrets = None,
      OpenAI = (\<lambda>key. key \<noteq> None), check_password = True, chat_input = None,
      pdf_search_tool = ''PDFSearchTool'',
      openai = \<lparr>delegates = (\<lambda>t outs. False), coworker = (\<lambda>t outs. []),
              manager = (\<lambda>t outs a. [])\<rparr>,
      fired = []\<rparr>) = Some k
          \<and> OpenAI \<lparr>load_dotenv = True, getenv = Some ''sk-test'', secrets = None,
      OpenAI = (\<lambda>key. key \<noteq> None), check_password = True, chat_input = None,
      pdf_search_tool = ''PDFSearchTool'',
      openai = \<lparr>delegates = (\<lambda>t outs. False), coworker = (\<lambda>t outs. []),
              manager = (\<lambda>t outs a. [])\<rparr>,
      fired = []\<rparr> (Some k))"
proof -
  let ?w1 = "\<lparr>load_dotenv = False, getenv = None, secrets = None,
      OpenAI = (\<lambda>key. key \<noteq> None), check_password = True, chat_input = Some ''What is MediSave?'',
      pdf_search_tool = ''PDFSearchTool'',
      openai = \<lparr>delegates = (\<lambda>t outs. False), coworker = (\<lambda>t outs. []),
              manager = (\<lambda>t outs a. [])\<rparr>,
      fired = []\<rparr>"
  let ?w2 = "\<lparr>load_dotenv = True, getenv = None, secrets = Some ''sk-test'',
      OpenAI = (\<lambda>key. key \<noteq> None), check_password = True, chat_input = Some ''What is MediSave?'',
      pdf_search_tool = ''PDFSearchTool'',
      openai = \<lparr>delegates = (\<lambda>t outs. False), coworker = (\<lambda>t outs. []),
              manager = (\<lambda>t outs a. [])\<rparr>,
      fired = []\<rparr>"
  let ?w3 = "\<lparr>load_dotenv = True, getenv = Some ''sk-test'', secrets = None,
      OpenAI = (\<lambda>key. key \<noteq> None), check_password = True, chat_input = None,
      pdf_search_tool = ''PDFSearchTool'',
      openai = \<lparr>delegates = (\<lambda>t outs. False), coworker = (\<lambda>t outs. []),
              manager = (\<lambda>t outs a. [])\<rparr>,
      fired = []\<rparr>"
  let ?s = "\<lparr>messages = Some [initial_message], written = []\<rparr>"
  have h1: "\<not> load_dotenv ?w1 \<and> secrets ?w1 = None" by simp
  have h2: "load_dotenv ?w2 \<and> getenv ?w2 = None \<and> \<not> OpenAI ?w2 None" by simp
  have h3: "\<not> OpenAI ?w2 None \<and> (if load_dotenv ?w2 then getenv ?w2 else secrets ?w2) = None" by simp
  have run: "main ?w3 ?s = Completed \<lparr>messages = Some [initial_message], written = [initial_message]\<rparr> None"
    by (simp add: main_def client_def OPENAI_KEY_def init_messages_def display_messages_def
          chat_message_write_def initial_message_def)
  then have h4: "\<not> OpenAI ?w3 None \<and> main ?w3 ?s = Completed \<lparr>messages = Some [initial_message], written = [initial_message]\<rparr> None" by simp
  from missing_credential_aborts [of ?w1 ?s] h1
  have a: "main ?w1 ?s = Aborted (KeyError ''OPENAI_API_KEY'') ?s" by blast
  from missing_credential_aborts [of ?w2 ?s] h2
  have b: "main ?w2 ?s = Aborted OpenAIError ?s" by blast
  from missing_credential_aborts [of ?w2 ?s None] h3
  have c: "main (?w2\<lparr>chat_input := None\<rparr>) ?s = main ?w2 ?s" by blast
  from missing_credential_aborts [of ?w3 ?s _ "\<lparr>messages = Some [initial_message], written = [initial_message]\<rparr>" None] h4
  have d: "\<exists>k. (if load_dotenv ?w3 then getenv ?w3 else secrets ?w3) = Some k \<and> OpenAI ?w3 (Some k)"
    by blast
  from a b c run d show ?thesis by blast
qed

section \<open>Which agents a turn invokes\<close>

lemma task_agents:
  "agent (task_medishield_information_provider tool prompt) = information_retrieval_agent"
  "agent (task_medisave_researcher prompt) = researcher"
  "agent task_customer_service_agent = customer_service_agent"
  by (simp_all add: task_medishield_information_provider_def task_medisave_researcher_def
        task_customer_service_agent_def)

lemma agent_roles:
  "agent_role information_retrieval_agent = ''Medishield Information Provider''"
  "agent_role researcher = ''Medisave Researcher''"
  "agent_role customer_service_agent = ''Customer Service Officer''"
  by (simp_all add: information_retrieval_agent_def researcher_def customer_service_agent_def)

text \<open>
  Claim C2, as stated: when the information agent returns findings, the research agent is
  not invoked in that turn. The script has no such short-circuit: the crew is built from
  the prompt alone, before any agent runs, and always holds the research task. On the
  run below the manager delegates every task to the agent the task names; the information
  agent returns findings about claims, and the researcher is invoked all the same.
\<close>

theorem short_circuit_counterexample:
  "coworker \<lparr>delegates = (\<lambda>t outs. True),
             coworker = (\<lambda>t outs. if agent t = information_retrieval_agent
                                   then ''Claims are filed by the hospital on your behalf.''
                                   else ''MediSave can pay for hospitalisation.''),
             manager = (\<lambda>t outs a. case a of None \<Rightarrow> [] | Some x \<Rightarrow> x)\<rparr>
      (task_medishield_information_provider ''PDFSearchTool'' ''What is the claim process for Medishield?'') []
     = ''Claims are filed by the hospital on your behalf.''
   \<and> invoked (kickoff \<lparr>delegates = (\<lambda>t outs. True),
             coworker = (\<lambda>t outs. if agent t = information_retrieval_agent
                                   then ''Claims are filed by the hospital on your behalf.''
                                   else ''MediSave can pay for hospitalisation.''),
             manager = (\<lambda>t outs a. case a of None \<Rightarrow> [] | Some x \<Rightarrow> x)\<rparr>
        (project_crew ''PDFSearchTool'' ''What is the claim process for Medishield?''))
     = [''Medishield Information Provider'', ''Medisave Researcher'', ''Customer Service Officer'']"
  by (simp add: kickoff_def project_crew_def task_agents agent_roles)

text \<open>
  Claim C2, amended: for every query the crew is given the same three tasks in the same
  order (information provider, researcher, customer service), the second being bound to
  the researcher; the researcher is invoked exactly when the manager model delegates that
  task to it, a decision taken on the task and on the output of the first task, which the
  script does not constrain.
\<close>

theorem research_task_always_scheduled:
  "tasks (project_crew tool prompt) =
     [task_medishield_information_provider tool prompt, task_medisave_researcher prompt,
      task_customer_service_agent]
   \<and> agent (task_medisave_researcher prompt) = researcher
   \<and> (''Medisave Researcher'' \<in> set (invoked (kickoff m (project_crew tool prompt))) \<longleftrightarrow>
        delegates m (task_medisave_researcher prompt)
          [manager m (task_medishield_information_provider tool prompt) []
             (if delegates m (task_medishield_information_provider tool prompt) []
              then Some (coworker m (task_medishield_information_provider tool prompt) [])
              else None)])"
  by (simp add: kickoff_def project_crew_def task_agents agent_roles)

theorem research_task_always_scheduled_witness:
  "tasks (project_crew ''PDFSearchTool'' ''What does Medishield cover?'') =
     [task_medishield_information_provider ''PDFSearchTool'' ''What does Medishield cover?'',
      task_medisave_researcher ''What does Medishield cover?'', task_customer_service_agent]
   \<and> invoked (kickoff \<lparr>delegates = (\<lambda>t outs. agent t \<noteq> researcher),
        coworker = (\<lambda>t outs. ''MediShield Life pays for large hospital bills.''),
        manager = (\<lambda>t outs a. case a of None \<Rightarrow> [] | Some x \<Rightarrow> x)\<rparr>
        (project_crew ''PDFSearchTool'' ''What does Medishield cover?'')) =
       [''Medishield Information Provider'', ''Customer Service Officer'']
   \<and> ''Medisave Researcher'' \<notin> set (invoked (kickoff \<lparr>delegates = (\<lambda>t outs. agent t \<noteq> researcher),
        coworker = (\<lambda>t outs. ''MediShield Life pays for large hospital bills.''),
        manager = (\<lambda>t outs a. case a of None \<Rightarrow> [] | Some x \<Rightarrow> x)\<rparr>
        (project_crew ''PDFSearchTool'' ''What does Medishield cover?'')))"
proof -
  let ?m = "\<lparr>delegates = (\<lambda>t outs. agent t \<noteq> researcher),
        coworker = (\<lambda>t outs. ''MediShield Life pays for large hospital bills.''),
        manager = (\<lambda>t outs a. case a of None \<Rightarrow> [] | Some x \<Rightarrow> x)\<rparr>"
  have nd: "\<not> delegates ?m (task_medisave_researcher ''What does Medishield cover?'')
          [manager ?m (task_medishield_information_provider ''PDFSearchTool'' ''What does Medishield cover?'') []
             (if delegates ?m (task_medishield_information_provider ''PDFSearchTool'' ''What does Medishield cover?'') []
              then Some (coworker ?m (task_medishield_information_provider ''PDFSearchTool'' ''What does Medishield cover?'') [])
              else None)]"
    by (simp add: task_agents)
  from research_task_always_scheduled [of "''PDFSearchTool''" "''What does Medishield cover?''" ?m] nd
  have a: "tasks (project_crew ''PDFSearchTool'' ''What does Medishield cover?'') =
     [task_medishield_information_provider ''PDFSearchTool'' ''What does Medishield cover?'',
      task_medisave_researcher ''What does Medishield cover?'', task_customer_service_agent]"
    and b: "''Medisave Researcher'' \<notin> set (invoked (kickoff ?m (project_crew ''PDFSearchTool'' ''What does Medishield cover?'')))"
    by blast+
  have c: "invoked (kickoff ?m (project_crew ''PDFSearchTool'' ''What does Medishield cover?'')) =
       [''Medishield Information Provider'', ''Customer Service Officer'']"
    by (simp add: kickoff_def project_crew_def task_agents agent_roles
          information_retrieval_agent_def researcher_def customer_service_agent_def)
  from a b c show ?thesis by blast
qed

end
